theory Spec2Isabelle
  imports Main "HOL-Library.Sublist"
begin

text \<open>
  A shallow embedding of \<^verbatim>\<open>linear.py\<close>, the linear-probing driver: embedding extraction
  (get_embeddings), the full-data and low-shot evaluation (eval_linear), the data providers
  (get_data, get_fsd50k), checkpoint loading (load_model) and the script body (main).
  Exceptions are values of a sum type; the log file is explicit state; the libraries the
  file calls are parameters.
\<close>

section \<open>Python strings and dictionaries\<close>

text \<open>
  The substring test \<^verbatim>\<open>p in s\<close> of Python strings: \<open>p\<close> occurs in \<open>s\<close> at some position.
\<close>

fun str_in :: "string \<Rightarrow> string \<Rightarrow> bool" where
  "str_in p [] = (p = [])"
| "str_in p (c # cs) = (prefix p (c # cs) \<or> str_in p cs)"

text \<open>
  \<^verbatim>\<open>s.replace(old, new)\<close>: every non-overlapping occurrence of \<open>old\<close>, scanning from the
  left, is replaced by \<open>new\<close>. For an empty \<open>old\<close> Python puts \<open>new\<close> before every character
  and at the end.
\<close>

function replace_scan :: "string \<Rightarrow> string \<Rightarrow> string \<Rightarrow> string" where
  "replace_scan old new [] = []"
| "replace_scan old new (c # cs) =
     (if old \<noteq> [] \<and> prefix old (c # cs)
      then new @ replace_scan old new (drop (length old) (c # cs))
      else c # replace_scan old new cs)"
  by pat_completeness auto
termination
  by (relation "measure (\<lambda>(old, new, s). length s)") auto

definition str_replace :: "string \<Rightarrow> string \<Rightarrow> string \<Rightarrow> string" where
  "str_replace old new s =
     (if old = [] then new @ concat (map (\<lambda>c. c # new) s) else replace_scan old new s)"

text \<open>
  A Python dict keeps its keys in insertion order and holds each key once: storing under a
  key that is present replaces the value in place, storing under a new key appends.
\<close>

fun dict_set :: "('k \<times> 'v) list \<Rightarrow> 'k \<Rightarrow> 'v \<Rightarrow> ('k \<times> 'v) list" where
  "dict_set [] k v = [(k, v)]"
| "dict_set ((k', v') # d) k v =
     (if k' = k then (k', v) # d else (k', v') # dict_set d k v)"

text \<open>\<^verbatim>\<open>str(n)\<close> and \<^verbatim>\<open>'{}'.format(n)\<close> of a Python int: decimal digits, a minus sign first.\<close>

definition digit_char :: "nat \<Rightarrow> char" where
  "digit_char d = ''0123456789'' ! d"

fun str_nat :: "nat \<Rightarrow> string" where
  "str_nat n = (if n < 10 then [digit_char n] else str_nat (n div 10) @ [digit_char (n mod 10)])"

declare str_nat.simps [simp del]

definition str_int :: "int \<Rightarrow> string" where
  "str_int i = (if i < 0 then CHR ''-'' # str_nat (nat (- i)) else str_nat (nat i))"

text \<open>\<^verbatim>\<open>os.path.join(a, b)\<close> on a POSIX system, for two components.\<close>

definition os_path_join :: "string \<Rightarrow> string \<Rightarrow> string" where
  "os_path_join a b =
     (if b \<noteq> [] \<and> hd b = CHR ''/'' then b
      else if a = [] \<or> last a = CHR ''/'' then a @ b
      else a @ ''/'' @ b)"

section \<open>Checkpoint loading (load_model)\<close>

datatype error = TypeError | IndexError | AttributeError | RuntimeError | IOError

text \<open>
  A loaded checkpoint is a dict from string keys to values; a value is a weight tensor or
  again a dict (as under the key \<^verbatim>\<open>model\<close>).
\<close>

datatype 'w entry = Weight 'w | Sub "(string \<times> 'w entry) list"

type_synonym 'w state_dict = "(string \<times> 'w entry) list"

text \<open>
  The dict comprehension of lines 123 and 126:
  \<^verbatim>\<open>{k.replace(p, ""): v for k, v in sd.items() if p in k}\<close>.
\<close>

definition strip_keys :: "string \<Rightarrow> 'w state_dict \<Rightarrow> 'w state_dict" where
  "strip_keys p sd =
     foldl (\<lambda>d (k, v). if str_in p k then dict_set d (str_replace p [] k) v else d) [] sd"

text \<open>The \<^verbatim>\<open>while True\<close> block of lines 122 to 130; every path through it ends in a break.\<close>

definition clean_state_dict :: "'w state_dict \<Rightarrow> 'w state_dict" where
  "clean_state_dict sd =
     (let clean_sd = strip_keys ''backbone.encoder.'' sd in
      if clean_sd \<noteq> [] then clean_sd
      else let clean_sd = strip_keys ''encoder.encoder.'' sd in
        if clean_sd \<noteq> [] then clean_sd
        else sd)"

section \<open>Command-line arguments and external collaborators\<close>

record args =
  dataset :: string
  model_type :: string
  use_cls :: bool
  use_fp16_eval :: bool
  batch_size :: nat
  num_workers :: nat
  model_file_path :: string
  model_name :: string
  model_epoch :: int

text \<open>
  The encoder object (\<^verbatim>\<open>ModelWrapper(args).encoder\<close>): the parameter names it expects and
  the parameter mapping it currently holds.
\<close>

record 'w encoder =
  param_names :: "string list"
  params :: "'w state_dict"

text \<open>
  A tensor is a batch of rows together with the numeric precision of its elements. An
  encoder call returns a tensor or a Python list of per-layer tensors.
\<close>

datatype dtype = Float16 | Float32 | Float64

record 'r tensor =
  dtype :: dtype
  rows :: "'r list"

datatype 'r enc_out = Single "'r tensor" | Layers "'r tensor list"

text \<open>A row of a NumPy array keeps the precision of the array it was taken from.\<close>

type_synonym 'r ndarray = "(dtype \<times> 'r) list"

datatype GradScaler = GradScaler

record clf_config =
  hidden_layer_sizes :: "nat list"
  max_iter :: nat
  early_stopping :: bool
  n_iter_no_change :: nat
  debug :: bool

text \<open>
  The libraries and modules the file calls and does not define (\<^verbatim>\<open>datasets\<close>,
  \<^verbatim>\<open>model\<close>, \<^verbatim>\<open>utils\<close>, \<^verbatim>\<open>torch\<close>) are parameters of the model. A data loader is the
  sequence of batches one iteration over it yields, each batch a pair of the inputs and the
  labels. The forward functions take the flag of the surrounding \<^verbatim>\<open>autocast\<close> context;
  \<^verbatim>\<open>encode_vit\<close> takes the encoder object, of which the source passes the attribute
  \<^verbatim>\<open>encoder\<close>, and the two keyword arguments \<^verbatim>\<open>split_frames\<close> and \<^verbatim>\<open>use_cls\<close>.
\<close>

record ('x, 'l, 'r, 'w, 'c, 'f) env =
  DataLoader_FSD50K :: "args \<Rightarrow> string \<Rightarrow> ('x list \<times> 'l list) list"
  ModelWrapper_encoder :: "args \<Rightarrow> 'w encoder"
  torch_load :: "string \<Rightarrow> error + 'w state_dict"
  model_call :: "'w encoder \<Rightarrow> bool \<Rightarrow> 'x list \<Rightarrow> 'r enc_out"
  encode_vit :: "'w encoder \<Rightarrow> bool \<Rightarrow> 'x list \<Rightarrow> bool \<Rightarrow> bool \<Rightarrow> 'r enc_out"
  clf_fit :: "clf_config \<Rightarrow> 'r ndarray \<Rightarrow> 'l list \<Rightarrow> 'r ndarray \<Rightarrow> 'l list \<Rightarrow> 'c"
  clf_score :: "'c \<Rightarrow> 'r ndarray \<Rightarrow> 'l list \<Rightarrow> 'f"
  eval_linear_low_shot ::
    "'r ndarray \<Rightarrow> 'l list \<Rightarrow> 'r ndarray \<Rightarrow> 'l list \<Rightarrow> 'r ndarray \<Rightarrow> 'l list \<Rightarrow> nat \<Rightarrow> 'f \<times> 'f"
  str_float :: "'f \<Rightarrow> string"

section \<open>Embedding extraction (get_embeddings)\<close>

text \<open>Lines 42 and 43: \<^verbatim>\<open>emb[-1]\<close> of a list; an empty list raises IndexError.\<close>

definition last_layer :: "'r enc_out \<Rightarrow> error + 'r tensor" where
  "last_layer emb =
     (case emb of
        Layers ls \<Rightarrow> (if ls = [] then Inl IndexError else Inr (last ls))
      | Single t \<Rightarrow> Inr t)"

text \<open>
  Line 44, \<^verbatim>\<open>emb.detach().cpu().numpy()\<close>, followed by the iteration of \<^verbatim>\<open>extend\<close> over
  the first axis: none of the three calls changes the values or the precision.
\<close>

definition numpy_rows :: "'r tensor \<Rightarrow> 'r ndarray" where
  "numpy_rows t = map (\<lambda>r. (dtype t, r)) (rows t)"

definition forward ::
  "('x, 'l, 'r, 'w, 'c, 'f) env \<Rightarrow> args \<Rightarrow> 'w encoder \<Rightarrow> GradScaler option \<Rightarrow> 'x list \<Rightarrow> 'r enc_out"
where
  "forward E a model fp16_scaler data =
     (let enabled = (fp16_scaler \<noteq> None) in
      if str_in ''vit'' (model_type a)
      then encode_vit E model enabled data True (use_cls a)
      else model_call E model enabled data)"

fun embeddings_loop ::
  "('x, 'l, 'r, 'w, 'c, 'f) env \<Rightarrow> args \<Rightarrow> 'w encoder \<Rightarrow> GradScaler option \<Rightarrow>
   ('x list \<times> 'l list) list \<Rightarrow> 'r ndarray \<times> 'l list \<Rightarrow> error + 'r ndarray \<times> 'l list"
where
  "embeddings_loop E a model fp16_scaler [] (embs, targets) = Inr (embs, targets)"
| "embeddings_loop E a model fp16_scaler ((data, target) # rest) (embs, targets) =
     (case last_layer (forward E a model fp16_scaler data) of
        Inl e \<Rightarrow> Inl e
      | Inr emb \<Rightarrow>
          embeddings_loop E a model fp16_scaler rest (embs @ numpy_rows emb, targets @ target))"

definition get_embeddings ::
  "('x, 'l, 'r, 'w, 'c, 'f) env \<Rightarrow> args \<Rightarrow> 'w encoder \<Rightarrow> ('x list \<times> 'l list) list \<Rightarrow>
   GradScaler option \<Rightarrow> error + 'r ndarray \<times> 'l list"
where
  "get_embeddings E a model data_loader fp16_scaler =
     embeddings_loop E a model fp16_scaler data_loader ([], [])"

section \<open>Evaluation (eval_linear)\<close>

record ('f) results =
  score_all :: 'f
  score_5 :: "'f \<times> 'f"

definition eval_linear ::
  "('x, 'l, 'r, 'w, 'c, 'f) env \<Rightarrow> args \<Rightarrow> 'w encoder \<Rightarrow> ('x list \<times> 'l list) list \<Rightarrow>
   ('x list \<times> 'l list) list \<Rightarrow> ('x list \<times> 'l list) list \<Rightarrow> bool \<Rightarrow> error + 'f results"
where
  "eval_linear E a model train_loader val_loader test_loader use_fp16 =
     (let fp16_scaler = (if use_fp16 then Some GradScaler else None) in
      case get_embeddings E a model train_loader fp16_scaler of
        Inl e \<Rightarrow> Inl e
      | Inr (X_train, y_train) \<Rightarrow>
     (case get_embeddings E a model val_loader fp16_scaler of
        Inl e \<Rightarrow> Inl e
      | Inr (X_val, y_val) \<Rightarrow>
     (case get_embeddings E a model test_loader fp16_scaler of
        Inl e \<Rightarrow> Inl e
      | Inr (X_test, y_test) \<Rightarrow>
      let clf = clf_fit E
            \<lparr>hidden_layer_sizes = [1024], max_iter = 500, early_stopping = True,
             n_iter_no_change = 20, debug = True\<rparr>
            X_train y_train X_val y_val;
          score_all = clf_score E clf X_test y_test;
          score_5 = eval_linear_low_shot E X_train y_train X_val y_val X_test y_test 5
      in Inr \<lparr>score_all = score_all, score_5 = score_5\<rparr>)))"

section \<open>Data providers (get_data, get_fsd50k)\<close>

definition get_fsd50k ::
  "('x, 'l, 'r, 'w, 'c, 'f) env \<Rightarrow> args \<Rightarrow>
   ('x list \<times> 'l list) list \<times> ('x list \<times> 'l list) list \<times> ('x list \<times> 'l list) list"
where
  "get_fsd50k E a =
     (DataLoader_FSD50K E a ''train'', DataLoader_FSD50K E a ''val'', DataLoader_FSD50K E a ''test'')"

text \<open>A Python function that ends without a return statement returns None.\<close>

definition get_data ::
  "('x, 'l, 'r, 'w, 'c, 'f) env \<Rightarrow> args \<Rightarrow>
   (('x list \<times> 'l list) list \<times> ('x list \<times> 'l list) list \<times> ('x list \<times> 'l list) list) option"
where
  "get_data E a = (if dataset a = ''fsd50k'' then Some (get_fsd50k E a) else None)"

section \<open>Model loading (load_model)\<close>

text \<open>
  Modelled from the spec: \<^verbatim>\<open>load_state_dict(clean_sd, strict=True)\<close> of the encoder class,
  which is not among the sources. The spec: "Load the resulting mapping into the encoder
  strictly (every key must match); mismatch is fatal and aborts the run", "the resulting
  mapping's keys must exactly match the encoder's expected parameter names, or loading
  fails".
\<close>

definition load_state_dict_strict :: "'w encoder \<Rightarrow> 'w state_dict \<Rightarrow> error + 'w encoder" where
  "load_state_dict_strict model sd =
     (if set (map fst sd) = set (param_names model)
      then Inr (model\<lparr>params := sd\<rparr>)
      else Inl RuntimeError)"

text \<open>
  Lines 120 and 121. When the value under \<^verbatim>\<open>model\<close> is a tensor, the next use of
  \<^verbatim>\<open>sd.items()\<close> raises AttributeError.
\<close>

definition unwrap_model :: "'w state_dict \<Rightarrow> error + 'w state_dict" where
  "unwrap_model sd =
     (if ''model'' \<in> set (map fst sd)
      then (case map_of sd ''model'' of
              Some (Sub d) \<Rightarrow> Inr d
            | _ \<Rightarrow> Inl AttributeError)
      else Inr sd)"

definition load_model :: "('x, 'l, 'r, 'w, 'c, 'f) env \<Rightarrow> args \<Rightarrow> error + 'w encoder" where
  "load_model E a =
     (let model = ModelWrapper_encoder E a in
      if model_file_path a \<noteq> []
      then (case torch_load E (model_file_path a) of
              Inl e \<Rightarrow> Inl e
            | Inr sd \<Rightarrow>
                (case unwrap_model sd of
                   Inl e \<Rightarrow> Inl e
                 | Inr sd' \<Rightarrow> load_state_dict_strict model (clean_state_dict sd')))
      else Inr model)"

section \<open>The driver\<close>

text \<open>
  The file system as far as the driver writes to it: a map from paths to the lines of the
  file. \<^verbatim>\<open>logging.FileHandler(path, mode="a")\<close> opens the file when it is constructed, which
  creates it when it is missing; \<^verbatim>\<open>logger.info(msg)\<close> appends the message as one line.
\<close>

type_synonym files = "string \<rightharpoonup> string list"

definition open_append :: "files \<Rightarrow> string \<Rightarrow> files" where
  "open_append fs p = (case fs p of None \<Rightarrow> fs(p \<mapsto> []) | Some ls \<Rightarrow> fs)"

definition append_line :: "files \<Rightarrow> string \<Rightarrow> string \<Rightarrow> files" where
  "append_line fs p l = fs(p \<mapsto> (case fs p of None \<Rightarrow> [] | Some ls \<Rightarrow> ls) @ [l])"

definition log_path :: "args \<Rightarrow> string" where
  "log_path a =
     os_path_join (''logs/linear_eval/'' @ dataset a @ ''/'' @ model_name a @ ''/'') ''log.csv''"

text \<open>The format call of lines 165 and 166.\<close>

definition log_line :: "('f \<Rightarrow> string) \<Rightarrow> int \<Rightarrow> 'f \<Rightarrow> 'f \<times> 'f \<Rightarrow> string" where
  "log_line str e s s5 =
     ''epoch,'' @ str_int e @ '',linear_score,'' @ str s @
     '',linear_score_5_mean,'' @ str (fst s5) @ '',linear_score_5_std,'' @ str (snd s5)"

text \<open>
  The script body. Unpacking None into three names raises TypeError. The result is the file
  system after the run and either the error that aborted it or unit.
\<close>

definition main :: "('x, 'l, 'r, 'w, 'c, 'f) env \<Rightarrow> args \<Rightarrow> files \<Rightarrow> files \<times> (error + unit)" where
  "main E a fs =
     (let fs1 = open_append fs (log_path a) in
      case get_data E a of
        None \<Rightarrow> (fs1, Inl TypeError)
      | Some (eval_train_loader, eval_val_loader, eval_test_loader) \<Rightarrow>
     (case load_model E a of
        Inl e \<Rightarrow> (fs1, Inl e)
      | Inr model \<Rightarrow>
     (case eval_linear E a model eval_train_loader eval_val_loader eval_test_loader
             (use_fp16_eval a) of
        Inl e \<Rightarrow> (fs1, Inl e)
      | Inr scores \<Rightarrow>
          (append_line fs1 (log_path a)
             (log_line (str_float E) (model_epoch a) (score_all scores) (score_5 scores)),
           Inr ()))))"

section \<open>A toy run\<close>

text \<open>
  A small concrete instance of the external collaborators, on which the model is run:
  three loaders over natural numbers, an encoder that returns its input as the embedding
  (in half precision when autocast is enabled) and, on the ViT path, a list of two layer
  outputs, two checkpoint files, and constant scores.
\<close>

definition toy_loader :: "string \<Rightarrow> (nat list \<times> nat list) list" where
  "toy_loader split =
     (if split = ''train'' then [([10, 11], [0, 1]), ([12], [1])]
      else if split = ''val'' then [([20], [0])]
      else [([30, 31], [1, 0])])"

definition toy_torch_load :: "string \<Rightarrow> error + nat state_dict" where
  "toy_torch_load path =
     (if path = ''byol.pth''
      then Inr [(''model'', Sub [(''backbone.encoder.fc.weight'', Weight 1),
                                 (''backbone.encoder.fc.bias'', Weight 2),
                                 (''projector.weight'', Weight 3)]),
                (''epoch'', Weight 100)]
      else if path = ''other.pth''
      then Inr [(''encoder.encoder.fc.weight'', Weight 4), (''head.weight'', Weight 5)]
      else Inl IOError)"

definition toy_str_float :: "nat \<Rightarrow> string" where
  "toy_str_float x =
     (if x = 8532 then ''0.8532'' else if x = 7100 then ''0.71''
      else if x = 400 then ''0.04'' else ''nan'')"

definition toy_env :: "(nat, nat, nat, nat, nat, nat) env" where
  "toy_env =
     \<lparr>DataLoader_FSD50K = (\<lambda>a split. toy_loader split),
      ModelWrapper_encoder = (\<lambda>a. \<lparr>param_names = [''fc.weight'', ''fc.bias''], params = []\<rparr>),
      torch_load = toy_torch_load,
      model_call = (\<lambda>model enabled data.
         Single \<lparr>dtype = (if enabled then Float16 else Float32), rows = data\<rparr>),
      encode_vit = (\<lambda>model enabled data split_frames cls.
         Layers [\<lparr>dtype = Float32, rows = []\<rparr>,
                 \<lparr>dtype = (if enabled then Float16 else Float32), rows = map Suc data\<rparr>]),
      clf_fit = (\<lambda>cfg X_train y_train X_val y_val. length X_train),
      clf_score = (\<lambda>clf X_test y_test. 8532),
      eval_linear_low_shot = (\<lambda>X_train y_train X_val y_val X_test y_test n. (7100, 400)),
      str_float = toy_str_float\<rparr>"

definition toy_args :: args where
  "toy_args =
     \<lparr>dataset = ''fsd50k'', model_type = ''resnet50'', use_cls = False, use_fp16_eval = True,
      batch_size = 2, num_workers = 0, model_file_path = ''byol.pth'', model_name = ''toy'',
      model_epoch = 100\<rparr>"

definition no_files :: files where
  "no_files = (\<lambda>p. None)"

section \<open>Embedding extraction: every example once, in order\<close>

lemma embeddings_loop_tensors:
  "map (\<lambda>(data, target). last_layer (forward E a model sc data)) loader = map Inr ts \<Longrightarrow>
   embeddings_loop E a model sc loader (embs, targets) =
     Inr (embs @ concat (map numpy_rows ts), targets @ concat (map snd loader))"
proof (induction loader arbitrary: ts embs targets)
  case Nil
  then show ?case by simp
next
  case (Cons b loader)
  obtain data target where b: "b = (data, target)" by (cases b)
  from Cons.prems obtain t ts' where ts: "ts = t # ts'"
    and t: "last_layer (forward E a model sc data) = Inr t"
    and rest: "map (\<lambda>(data, target). last_layer (forward E a model sc data)) loader = map Inr ts'"
    by (cases ts) (auto simp: b)
  from Cons.IH [OF rest] show ?case by (simp add: b ts t)
qed


lemma batch_tensors_exist:
  "\<forall>(data, target) \<in> set loader.
      \<exists>t. last_layer (forward E a model sc data) = Inr t \<and> length (rows t) = length data \<Longrightarrow>
   \<exists>ts. map (\<lambda>(data, target). last_layer (forward E a model sc data)) loader = map Inr ts \<and>
        map (\<lambda>t. length (rows t)) ts = map (\<lambda>(data, target). length data) loader"
proof (induction loader)
  case Nil
  then show ?case by simp
next
  case (Cons b loader)
  obtain data target where b: "b = (data, target)" by (cases b)
  from Cons.prems obtain t where t: "last_layer (forward E a model sc data) = Inr t"
    and len: "length (rows t) = length data" by (auto simp: b)
  from Cons.prems have "\<forall>(data, target) \<in> set loader.
      \<exists>t. last_layer (forward E a model sc data) = Inr t \<and> length (rows t) = length data"
    by simp
  from Cons.IH [OF this] obtain ts where
    ts: "map (\<lambda>(data, target). last_layer (forward E a model sc data)) loader = map Inr ts"
    and lens: "map (\<lambda>t. length (rows t)) ts = map (\<lambda>(data, target). length data) loader"
    by blast
  have "map (\<lambda>(data, target). last_layer (forward E a model sc data)) (b # loader) = map Inr (t # ts)
    \<and> map (\<lambda>t. length (rows t)) (t # ts) = map (\<lambda>(data, target). length data) (b # loader)"
    by (simp add: b t len ts lens)
  then show ?case ..
qed

lemma zip_concat_batches:
  "map length xss = map length yss \<Longrightarrow>
   zip (concat xss) (concat yss) = concat (map (\<lambda>(xs, ys). zip xs ys) (zip xss yss))"
proof (induction xss arbitrary: yss)
  case Nil
  then show ?case by simp
next
  case (Cons xs xss)
  then obtain ys yss' where yss: "yss = ys # yss'" and len: "length xs = length ys"
    and rest: "map length xss = map length yss'"
    by (cases yss) auto
  from Cons.IH [OF rest] show ?case by (simp add: yss len)
qed

lemma length_numpy_rows: "length (numpy_rows t) = length (rows t)"
  by (simp add: numpy_rows_def)

lemmas toy_defs = toy_env_def toy_args_def toy_loader_def toy_torch_load_def toy_str_float_def
  no_files_def

text \<open>
  Claim C1. When every batch carries as many labels as inputs and the encoder returns, for
  every batch, a tensor with one row per input (possibly as the last element of a list),
  get_embeddings returns two arrays of equal length; the number of embedding rows is the
  total number of examples over all batches; the labels are those of the batches in
  iteration order, so the i-th label is the label of the i-th example; and the embedding
  rows are the rows of the batches' tensors in iteration order, so the i-th row is the
  row the encoder produced for the i-th example. The statement also holds for an iterator
  with no batches.
\<close>

theorem get_embeddings_covers_examples:
  assumes labels: "\<forall>(data, target) \<in> set loader. length target = length data"
    and enc: "\<forall>(data, target) \<in> set loader.
      \<exists>t. last_layer (forward E a model sc data) = Inr t \<and> length (rows t) = length data"
  shows "\<exists>embs targets ts.
      get_embeddings E a model loader sc = Inr (embs, targets)
    \<and> length embs = length targets
    \<and> length embs = sum_list (map (\<lambda>(data, target). length data) loader)
    \<and> targets = concat (map snd loader)
    \<and> zip (concat (map fst loader)) targets
        = concat (map (\<lambda>(data, target). zip data target) loader)
    \<and> map (\<lambda>(data, target). last_layer (forward E a model sc data)) loader = map Inr ts
    \<and> embs = concat (map numpy_rows ts)
    \<and> zip (concat (map fst loader)) embs
        = concat (map (\<lambda>(data, t). zip data (numpy_rows t)) (zip (map fst loader) ts))"
proof -
  from batch_tensors_exist [OF enc] obtain ts where
    ts: "map (\<lambda>(data, target). last_layer (forward E a model sc data)) loader = map Inr ts"
    and lens: "map (\<lambda>t. length (rows t)) ts = map (\<lambda>(data, target). length data) loader"
    by blast
  let ?embs = "concat (map numpy_rows ts)"
  let ?targets = "concat (map snd loader)"
  have res: "get_embeddings E a model loader sc = Inr (?embs, ?targets)"
    using embeddings_loop_tensors [OF ts, of "[]" "[]"] by (simp add: get_embeddings_def)
  have fst_len: "map length (map fst loader) = map (\<lambda>(data, target). length data) loader"
    by (simp add: case_prod_unfold)
  have snd_len: "map length (map snd loader) = map (\<lambda>(data, target). length data) loader"
    using labels by (auto simp: case_prod_unfold)
  have emb_len: "map length (map numpy_rows ts) = map (\<lambda>(data, target). length data) loader"
    using lens by (simp add: length_numpy_rows comp_def)
  have n_embs: "length ?embs = sum_list (map (\<lambda>(data, target). length data) loader)"
    by (simp only: length_concat emb_len)
  have n_targets: "length ?targets = sum_list (map (\<lambda>(data, target). length data) loader)"
    by (simp only: length_concat snd_len)
  have "zip (concat (map fst loader)) ?targets
      = concat (map (\<lambda>(xs, ys). zip xs ys) (zip (map fst loader) (map snd loader)))"
    by (rule zip_concat_batches) (simp only: fst_len snd_len)
  then have z_targets: "zip (concat (map fst loader)) ?targets
      = concat (map (\<lambda>(data, target). zip data target) loader)"
    by (simp only: zip_map_fst_snd)
  have "zip (concat (map fst loader)) ?embs
      = concat (map (\<lambda>(xs, ys). zip xs ys) (zip (map fst loader) (map numpy_rows ts)))"
    by (rule zip_concat_batches) (simp only: fst_len emb_len)
  also have "zip (map fst loader) (map numpy_rows ts)
      = map (\<lambda>(data, t). (data, numpy_rows t)) (zip (map fst loader) ts)"
    by (simp add: zip_map2)
  finally have z_embs: "zip (concat (map fst loader)) ?embs
      = concat (map (\<lambda>(data, t). zip data (numpy_rows t)) (zip (map fst loader) ts))"
    by (simp add: comp_def case_prod_unfold)
  from res n_embs n_targets z_targets ts z_embs show ?thesis by simp
qed

theorem get_embeddings_covers_examples_witness:
  "\<exists>embs targets.
      get_embeddings toy_env toy_args (ModelWrapper_encoder toy_env toy_args)
        (toy_loader ''train'') (Some GradScaler) = Inr (embs, targets)
    \<and> length embs = 3 \<and> length targets = 3
    \<and> zip [10::nat, 11, 12] targets = [(10, 0::nat), (11, 1), (12, 1)]"
proof -
  let ?m = "ModelWrapper_encoder toy_env toy_args"
  have labels: "\<forall>(data, target) \<in> set (toy_loader ''train''). length target = length data"
    by (simp add: toy_loader_def)
  have enc: "\<forall>(data, target) \<in> set (toy_loader ''train'').
      \<exists>t. last_layer (forward toy_env toy_args ?m (Some GradScaler) data) = Inr t
        \<and> length (rows t) = length data"
    by (simp add: toy_defs forward_def last_layer_def)
  from get_embeddings_covers_examples [OF labels enc]
  obtain embs targets where
    "get_embeddings toy_env toy_args ?m (toy_loader ''train'') (Some GradScaler) = Inr (embs, targets)"
    and "length embs = length targets"
    and "length embs = sum_list (map (\<lambda>(data, target). length data) (toy_loader ''train''))"
    and "zip (concat (map fst (toy_loader ''train''))) targets
        = concat (map (\<lambda>(data, target). zip data target) (toy_loader ''train''))"
    by blast
  then show ?thesis by (simp add: toy_loader_def)
qed

section \<open>Per-layer encoder outputs\<close>



lemma get_embeddings_final_layer_example:
  "get_embeddings toy_env (toy_args\<lparr>model_type := ''vit_base''\<rparr>)
     (ModelWrapper_encoder toy_env toy_args) (toy_loader ''train'') None
     = Inr ([(Float32, 11), (Float32, 12), (Float32, 13)], [0, 1, 1])"
  by (simp add: toy_defs get_embeddings_def forward_def last_layer_def numpy_rows_def)

section \<open>Checkpoint key prefixes\<close>

lemma dict_set_not_Nil: "dict_set d k v \<noteq> []"
  by (cases d) (auto split: if_splits)

lemma foldl_strip_not_Nil:
  "d \<noteq> [] \<Longrightarrow>
   foldl (\<lambda>d (k, v). if str_in p k then dict_set d (str_replace p [] k) v else d) d sd \<noteq> []"
proof (induction sd arbitrary: d)
  case Nil
  then show ?case by simp
next
  case (Cons kv sd)
  obtain k v where kv: "kv = (k, v)" by (cases kv)
  have "(if str_in p k then dict_set d (str_replace p [] k) v else d) \<noteq> []"
    using Cons.prems by (simp add: dict_set_not_Nil)
  from Cons.IH [OF this] show ?case by (simp add: kv)
qed

lemma strip_keys_Nil_iff:
  "(strip_keys p sd = []) = (\<not> (\<exists>k \<in> set (map fst sd). str_in p k))"
  unfolding strip_keys_def
proof (induction sd)
  case Nil
  then show ?case by simp
next
  case (Cons kv sd)
  obtain k v where kv: "kv = (k, v)" by (cases kv)
  show ?case
  proof (cases "str_in p k")
    case True
    have "dict_set [] (str_replace p [] k) v \<noteq> []" by simp
    from foldl_strip_not_Nil [OF this, of p sd] True show ?thesis
      by (simp add: kv)
  next
    case False
    then show ?thesis using Cons.IH by (simp add: kv)
  qed
qed

text \<open>
  Claim C2. The loader filters the checkpoint mapping by the prefix "backbone.encoder."
  first and by "encoder.encoder." second and uses the first of the two filtered mappings
  that is not empty; when neither is, it uses the mapping unmodified. Filtering by a prefix
  yields the empty mapping exactly when the prefix occurs in no key, and then the next
  candidate is tried.
\<close>

theorem checkpoint_prefix_order:
  "clean_state_dict sd =
     (if \<exists>k \<in> set (map fst sd). str_in ''backbone.encoder.'' k
      then strip_keys ''backbone.encoder.'' sd
      else if \<exists>k \<in> set (map fst sd). str_in ''encoder.encoder.'' k
      then strip_keys ''encoder.encoder.'' sd
      else sd)
   \<and> (strip_keys p sd = []) = (\<not> (\<exists>k \<in> set (map fst sd). str_in p k))"
  by (simp only: clean_state_dict_def Let_def strip_keys_Nil_iff not_not simp_thms if_True if_False split: if_splits)

lemma checkpoint_prefix_order_example:
  "clean_state_dict [(''encoder.encoder.fc.weight'', Weight (4::nat)), (''head.weight'', Weight 5)]
     = [(''fc.weight'', Weight 4)]
   \<and> clean_state_dict [(''backbone.encoder.fc.weight'', Weight (1::nat)),
        (''encoder.encoder.fc.weight'', Weight 4)] = [(''fc.weight'', Weight 1)]
   \<and> clean_state_dict [(''fc.weight'', Weight (4::nat)), (''head.weight'', Weight 5)]
     = [(''fc.weight'', Weight 4), (''head.weight'', Weight 5)]"
  by (simp add: clean_state_dict_def strip_keys_def str_replace_def)

section \<open>Full-data evaluation\<close>

lemma eval_linear_Inr:
  assumes tr: "get_embeddings E a model train_loader (if use_fp16 then Some GradScaler else None)
      = Inr (X_train, y_train)"
    and va: "get_embeddings E a model val_loader (if use_fp16 then Some GradScaler else None)
      = Inr (X_val, y_val)"
    and te: "get_embeddings E a model test_loader (if use_fp16 then Some GradScaler else None)
      = Inr (X_test, y_test)"
  shows "eval_linear E a model train_loader val_loader test_loader use_fp16 =
     Inr \<lparr>score_all = clf_score E
            (clf_fit E \<lparr>hidden_layer_sizes = [1024], max_iter = 500, early_stopping = True,
                       n_iter_no_change = 20, debug = True\<rparr> X_train y_train X_val y_val)
            X_test y_test,
          score_5 = eval_linear_low_shot E X_train y_train X_val y_val X_test y_test 5\<rparr>"
  using tr va te by (simp add: eval_linear_def Let_def)

text \<open>
  Claim C7. Whenever the three extractions succeed, eval_linear returns a result whose
  full-data score is the score, on the test embeddings and labels, of the classifier
  fitted on the train embeddings and labels with the val embeddings and labels, and that
  classifier is constructed with exactly one hidden layer of 1024 units, at most 500
  iterations, early stopping enabled and a patience of 20 iterations.
\<close>

theorem eval_linear_classifier_config:
  assumes tr: "get_embeddings E a model train_loader (if use_fp16 then Some GradScaler else None)
      = Inr (X_train, y_train)"
    and va: "get_embeddings E a model val_loader (if use_fp16 then Some GradScaler else None)
      = Inr (X_val, y_val)"
    and te: "get_embeddings E a model test_loader (if use_fp16 then Some GradScaler else None)
      = Inr (X_test, y_test)"
  shows "\<exists>r cfg.
      eval_linear E a model train_loader val_loader test_loader use_fp16 = Inr r
    \<and> score_all r = clf_score E (clf_fit E cfg X_train y_train X_val y_val) X_test y_test
    \<and> hidden_layer_sizes cfg = [1024] \<and> max_iter cfg = 500 \<and> early_stopping cfg
    \<and> n_iter_no_change cfg = 20"
proof -
  let ?cfg = "\<lparr>hidden_layer_sizes = [1024], max_iter = 500, early_stopping = True,
               n_iter_no_change = 20, debug = True\<rparr>"
  let ?r = "\<lparr>score_all = clf_score E (clf_fit E ?cfg X_train y_train X_val y_val) X_test y_test,
             score_5 = eval_linear_low_shot E X_train y_train X_val y_val X_test y_test 5\<rparr>"
  have "eval_linear E a model train_loader val_loader test_loader use_fp16 = Inr ?r"
    by (rule eval_linear_Inr [OF tr va te])
  moreover have "score_all ?r = clf_score E (clf_fit E ?cfg X_train y_train X_val y_val) X_test y_test"
    by simp
  moreover have "hidden_layer_sizes ?cfg = [1024] \<and> max_iter ?cfg = 500 \<and> early_stopping ?cfg
    \<and> n_iter_no_change ?cfg = 20" by simp
  ultimately show ?thesis by blast
qed

lemma toy_train: "get_embeddings toy_env toy_args (ModelWrapper_encoder toy_env toy_args)
    (toy_loader ''train'') (Some GradScaler)
    = Inr ([(Float16, 10), (Float16, 11), (Float16, 12)], [0, 1, 1])"
  by (simp add: toy_defs get_embeddings_def forward_def last_layer_def numpy_rows_def)

lemma toy_val: "get_embeddings toy_env toy_args (ModelWrapper_encoder toy_env toy_args)
    (toy_loader ''val'') (Some GradScaler) = Inr ([(Float16, 20)], [0])"
  by (simp add: toy_defs get_embeddings_def forward_def last_layer_def numpy_rows_def)

lemma toy_test: "get_embeddings toy_env toy_args (ModelWrapper_encoder toy_env toy_args)
    (toy_loader ''test'') (Some GradScaler) = Inr ([(Float16, 30), (Float16, 31)], [1, 0])"
  by (simp add: toy_defs get_embeddings_def forward_def last_layer_def numpy_rows_def)

theorem eval_linear_classifier_config_witness:
  "\<exists>r. eval_linear toy_env toy_args (ModelWrapper_encoder toy_env toy_args)
         (toy_loader ''train'') (toy_loader ''val'') (toy_loader ''test'') True = Inr r
       \<and> score_all r = 8532"
proof -
  from eval_linear_classifier_config [of toy_env toy_args _ _ True, simplified, OF toy_train toy_val toy_test]
  obtain r cfg where
    "eval_linear toy_env toy_args (ModelWrapper_encoder toy_env toy_args)
         (toy_loader ''train'') (toy_loader ''val'') (toy_loader ''test'') True = Inr r"
    and "score_all r = clf_score toy_env (clf_fit toy_env cfg
            [(Float16, 10), (Float16, 11), (Float16, 12)] [0, 1, 1] [(Float16, 20)] [0])
            [(Float16, 30), (Float16, 31)] [1, 0]"
    by blast
  then show ?thesis by (simp add: toy_env_def)
qed

section \<open>The driver and its log line\<close>










lemmas run_defs = main_def get_data_def get_fsd50k_def load_model_def unwrap_model_def
  clean_state_dict_def strip_keys_def str_replace_def load_state_dict_strict_def eval_linear_def
  get_embeddings_def forward_def last_layer_def numpy_rows_def Let_def log_line_def str_int_def
  str_nat.simps digit_char_def append_line_def open_append_def log_path_def os_path_join_def




section \<open>Low-shot evaluation\<close>




section \<open>Dataset identifiers\<close>

text \<open>
  Claim C9. get_data returns None exactly for the dataset identifiers other than fsd50k.
  For such an identifier the unpacking in the driver raises TypeError and the run ends
  there, whatever the model, the checkpoint and the encoder are: nothing is loaded and no
  embedding is extracted.
\<close>

theorem unsupported_dataset_aborts:
  "(get_data E a = None) = (dataset a \<noteq> ''fsd50k'')
   \<and> (dataset a \<noteq> ''fsd50k'' \<longrightarrow>
        main E a fs = (open_append fs (log_path a), Inl TypeError))"
  by (simp add: get_data_def main_def Let_def)

theorem unsupported_dataset_aborts_witness:
  "get_data toy_env (toy_args\<lparr>dataset := ''audioset''\<rparr>) = None
   \<and> snd (main toy_env (toy_args\<lparr>dataset := ''audioset''\<rparr>) no_files) = Inl TypeError"
  using unsupported_dataset_aborts [of toy_env "toy_args\<lparr>dataset := ''audioset''\<rparr>" no_files]
  by (simp add: toy_args_def)

section \<open>Model loading\<close>

text \<open>
  Claim C10. With the empty string as model file path, load_model returns the freshly
  constructed encoder unchanged and reads no checkpoint: the result does not depend on
  what torch.load would return. Reading, unwrapping, prefix stripping and strict loading
  happen only for a non-empty path.
\<close>

theorem empty_path_skips_checkpoint:
  "(model_file_path a = [] \<longrightarrow>
      load_model E a = Inr (ModelWrapper_encoder E a)
    \<and> load_model (E\<lparr>torch_load := f\<rparr>) a = Inr (ModelWrapper_encoder E a))
   \<and> (model_file_path a \<noteq> [] \<longrightarrow>
      load_model E a =
        (case torch_load E (model_file_path a) of
           Inl e \<Rightarrow> Inl e
         | Inr sd \<Rightarrow>
             (case unwrap_model sd of
                Inl e \<Rightarrow> Inl e
              | Inr sd' \<Rightarrow>
                  load_state_dict_strict (ModelWrapper_encoder E a) (clean_state_dict sd'))))"
  by (simp add: load_model_def Let_def)

theorem empty_path_skips_checkpoint_witness:
  "load_model toy_env (toy_args\<lparr>model_file_path := []\<rparr>)
     = Inr \<lparr>param_names = [''fc.weight'', ''fc.bias''], params = []\<rparr>
   \<and> load_model toy_env toy_args
     = Inr \<lparr>param_names = [''fc.weight'', ''fc.bias''],
            params = [(''fc.weight'', Weight 1), (''fc.bias'', Weight 2)]\<rparr>"
  using empty_path_skips_checkpoint [of "toy_args\<lparr>model_file_path := []\<rparr>" toy_env]
    empty_path_skips_checkpoint [of toy_args toy_env]
  by (simp add: toy_defs unwrap_model_def clean_state_dict_def strip_keys_def
      str_replace_def load_state_dict_strict_def)

lemma main_load_error:
  assumes "load_model E a = Inl e"
  shows "\<exists>e'. main E a fs = (open_append fs (log_path a), Inl e')"
  using assms by (cases "get_data E a") (auto simp: main_def Let_def)

text \<open>
  Claim C3. For a non-empty model file path whose checkpoint loads and unwraps, load_model
  returns the encoder holding the prefix-stripped mapping when the keys of that mapping are
  exactly the encoder's parameter names, and fails otherwise, returning no encoder; after
  such a failure the run aborts and nothing is logged.
\<close>

theorem strict_load_or_abort:
  assumes path: "model_file_path a \<noteq> []"
    and ck: "torch_load E (model_file_path a) = Inr ck"
    and sd: "unwrap_model ck = Inr sd"
  shows "load_model E a =
       (if set (map fst (clean_state_dict sd)) = set (param_names (ModelWrapper_encoder E a))
        then Inr ((ModelWrapper_encoder E a)\<lparr>params := clean_state_dict sd\<rparr>)
        else Inl RuntimeError)
    \<and> (set (map fst (clean_state_dict sd)) \<noteq> set (param_names (ModelWrapper_encoder E a)) \<longrightarrow>
         (\<exists>e. main E a fs = (open_append fs (log_path a), Inl e)))"
proof -
  have lm: "load_model E a =
       (if set (map fst (clean_state_dict sd)) = set (param_names (ModelWrapper_encoder E a))
        then Inr ((ModelWrapper_encoder E a)\<lparr>params := clean_state_dict sd\<rparr>)
        else Inl RuntimeError)"
    using path ck sd by (simp add: load_model_def Let_def load_state_dict_strict_def)
  have "\<exists>e. main E a fs = (open_append fs (log_path a), Inl e)"
    if "set (map fst (clean_state_dict sd)) \<noteq> set (param_names (ModelWrapper_encoder E a))"
  proof -
    from lm that have "load_model E a = Inl RuntimeError" by simp
    then show ?thesis by (rule main_load_error)
  qed
  with lm show ?thesis by blast
qed

theorem strict_load_or_abort_witness:
  "load_model toy_env (toy_args\<lparr>model_file_path := ''other.pth''\<rparr>) = Inl RuntimeError
   \<and> main toy_env (toy_args\<lparr>model_file_path := ''other.pth''\<rparr>) no_files
       = (open_append no_files ''logs/linear_eval/fsd50k/toy/log.csv'', Inl RuntimeError)
   \<and> load_model toy_env toy_args
       = Inr \<lparr>param_names = [''fc.weight'', ''fc.bias''],
              params = [(''fc.weight'', Weight 1), (''fc.bias'', Weight 2)]\<rparr>"
proof -
  let ?bad = "toy_args\<lparr>model_file_path := ''other.pth''\<rparr>"
  let ?other = "[(''encoder.encoder.fc.weight'', Weight (4::nat)), (''head.weight'', Weight 5)]"
  let ?byol = "[(''backbone.encoder.fc.weight'', Weight (1::nat)),
                (''backbone.encoder.fc.bias'', Weight 2), (''projector.weight'', Weight 3)]"
  have p1: "model_file_path ?bad \<noteq> []" by simp
  have c1: "torch_load toy_env (model_file_path ?bad) = Inr ?other"
    by (simp add: toy_defs)
  have u1: "unwrap_model ?other = Inr ?other" by (simp add: unwrap_model_def)
  have p2: "model_file_path toy_args \<noteq> []" by (simp add: toy_defs)
  have c2: "torch_load toy_env (model_file_path toy_args)
      = Inr [(''model'', Sub ?byol), (''epoch'', Weight 100)]"
    by (simp add: toy_defs)
  have u2: "unwrap_model [(''model'', Sub ?byol), (''epoch'', Weight 100)] = Inr ?byol"
    by (simp add: unwrap_model_def)
  from strict_load_or_abort [OF p1 c1 u1, of no_files] strict_load_or_abort [OF p2 c2 u2, of no_files]
  show ?thesis
    by (simp add: toy_defs clean_state_dict_def strip_keys_def str_replace_def run_defs)
qed

section \<open>Reduced precision\<close>






end
